theory Spec2Isabelle
  imports Complex_Main "HOL-Library.Multiset"
begin

section \<open>Identifiers, time and errors\<close>

text \<open>
  UUIDs are opaque identifiers, compared for equality only; timestamps are points on a
  line. Every exception the services raise is a value of \<open>error\<close>, returned as \<open>Inl\<close>.
  All reads of the clock within one call are taken at the same instant \<open>now\<close>.
\<close>

type_synonym uuid = nat
type_synonym datetime = int

datatype error =
    ValueError string
  | MultipleResultsFound
  | KeyError int
  | AttributeError
  | EmbeddingError string
  | DatabaseError string

section \<open>Blind polling: models/polling.py and schemas/polling.py\<close>

text \<open>
  The columns of \<open>conviction_polls\<close> and \<open>poll_votes\<close> that the polling services read or
  write. Field names carry a prefix where two tables share a column name.
\<close>

record conviction_poll =
  poll_deal_id :: uuid
  poll_firm_id :: uuid
  is_active :: bool
  is_revealed :: bool
  reveal_threshold :: int
  closes_at :: "datetime option"
  divergence_score :: "int option"
  average_score :: "int option"

record poll_vote =
  vote_id :: uuid
  vote_poll_id :: uuid
  vote_user_id :: uuid
  conviction_score :: int
  red_flags :: "string list option"
  red_flag_notes :: "string option"
  green_flags :: "string list option"
  green_flag_notes :: "string option"
  private_notes :: "string option"
  submitted_at :: datetime
  updated_at :: datetime

record poll_vote_create =
  c_conviction_score :: int
  c_red_flags :: "string list option"
  c_red_flag_notes :: "string option"
  c_green_flags :: "string list option"
  c_green_flag_notes :: "string option"
  c_private_notes :: "string option"

record poll_vote_response =
  r_id :: uuid
  r_poll_id :: uuid
  r_conviction_score :: int
  r_red_flags :: "string list option"
  r_green_flags :: "string list option"
  r_submitted_at :: datetime
  r_user_id :: "uuid option"
  r_user_name :: "string option"
  r_red_flag_notes :: "string option"
  r_green_flag_notes :: "string option"

text \<open>
  The part of the database the polling services touch: polls by primary key, the vote
  rows in table order (no uniqueness constraint on \<open>(poll_id, user_id)\<close> is declared in
  the model, so the table is a list that may hold duplicates), the \<open>full_name\<close> of each
  user and the \<open>company_name\<close> of each deal.
\<close>

record poll_db =
  conviction_polls :: "uuid \<rightharpoonup> conviction_poll"
  poll_votes :: "poll_vote list"
  user_full_name :: "uuid \<rightharpoonup> string"
  deal_company_name :: "uuid \<rightharpoonup> string"

definition scalar_one_or_none :: "'a list \<Rightarrow> error + 'a option" where
  "scalar_one_or_none rows =
     (case rows of
        [] \<Rightarrow> Inr None
      | [r] \<Rightarrow> Inr (Some r)
      | _ \<Rightarrow> Inl MultipleResultsFound)"

definition votes_of_poll :: "poll_db \<Rightarrow> uuid \<Rightarrow> poll_vote list" where
  "votes_of_poll s poll_id = filter (\<lambda>v. vote_poll_id v = poll_id) (poll_votes s)"

definition votes_of_user :: "poll_db \<Rightarrow> uuid \<Rightarrow> uuid \<Rightarrow> poll_vote list" where
  "votes_of_user s poll_id user_id =
     filter (\<lambda>v. vote_poll_id v = poll_id \<and> vote_user_id v = user_id) (poll_votes s)"

subsection \<open>PollingService (services/courage/polling.py)\<close>

text \<open>\<open>db.get(ConvictionPoll, poll_id)\<close> followed by the firm check every method starts with.\<close>

definition get_poll :: "uuid \<Rightarrow> poll_db \<Rightarrow> uuid \<Rightarrow> error + conviction_poll" where
  "get_poll firm_id s poll_id =
     (case conviction_polls s poll_id of
        None \<Rightarrow> Inl (ValueError ''Poll not found or access denied'')
      | Some poll \<Rightarrow>
          if poll_firm_id poll \<noteq> firm_id
          then Inl (ValueError ''Poll not found or access denied'')
          else Inr poll)"

definition update_vote :: "poll_vote_create \<Rightarrow> datetime \<Rightarrow> poll_vote \<Rightarrow> poll_vote" where
  "update_vote data now v =
     v\<lparr>conviction_score := c_conviction_score data,
       red_flags := c_red_flags data,
       red_flag_notes := c_red_flag_notes data,
       green_flags := c_green_flags data,
       green_flag_notes := c_green_flag_notes data,
       private_notes := c_private_notes data,
       updated_at := now\<rparr>"

definition new_vote :: "uuid \<Rightarrow> uuid \<Rightarrow> uuid \<Rightarrow> poll_vote_create \<Rightarrow> datetime \<Rightarrow> poll_vote" where
  "new_vote new_id poll_id user_id data now =
     \<lparr>vote_id = new_id, vote_poll_id = poll_id, vote_user_id = user_id,
      conviction_score = c_conviction_score data,
      red_flags = c_red_flags data,
      red_flag_notes = c_red_flag_notes data,
      green_flags = c_green_flags data,
      green_flag_notes = c_green_flag_notes data,
      private_notes = c_private_notes data,
      submitted_at = now, updated_at = now\<rparr>"

text \<open>
  \<open>_check_reveal_threshold\<close> counts the votes and compares with the threshold, and then
  does nothing (\<open>pass\<close>): the state is returned as it is.
\<close>

definition check_reveal_threshold :: "poll_db \<Rightarrow> uuid \<Rightarrow> conviction_poll \<Rightarrow> poll_db" where
  "check_reveal_threshold s poll_id poll =
     (if int (length (votes_of_poll s poll_id)) \<ge> reveal_threshold poll \<and> \<not> is_revealed poll
      then s else s)"

text \<open>
  \<open>submit_vote\<close>: \<open>now\<close> is the clock, \<open>new_id\<close> the primary key \<open>uuid4()\<close> draws for a
  new row. The row found by \<open>(poll_id, user_id)\<close> is updated in place; a new row is added
  at the end of the table.
\<close>

definition submit_vote ::
  "uuid \<Rightarrow> datetime \<Rightarrow> uuid \<Rightarrow> poll_db \<Rightarrow> uuid \<Rightarrow> uuid \<Rightarrow> poll_vote_create
     \<Rightarrow> error + (poll_vote \<times> poll_db)" where
  "submit_vote firm_id now new_id s poll_id user_id data =
     (case get_poll firm_id s poll_id of
        Inl e \<Rightarrow> Inl e
      | Inr poll \<Rightarrow>
          if \<not> is_active poll then Inl (ValueError ''Poll is no longer active'')
          else if (case closes_at poll of None \<Rightarrow> False | Some c \<Rightarrow> now > c)
          then Inl (ValueError ''Poll has closed'')
          else
            (case scalar_one_or_none (votes_of_user s poll_id user_id) of
               Inl e \<Rightarrow> Inl e
             | Inr (Some existing_vote) \<Rightarrow>
                 let vote = update_vote data now existing_vote;
                     s' = s\<lparr>poll_votes :=
                            map (\<lambda>v. if vote_poll_id v = poll_id \<and> vote_user_id v = user_id
                                      then update_vote data now v else v) (poll_votes s)\<rparr>
                 in Inr (vote, check_reveal_threshold s' poll_id poll)
             | Inr None \<Rightarrow>
                 let vote = new_vote new_id poll_id user_id data now;
                     s' = s\<lparr>poll_votes := poll_votes s @ [vote]\<rparr>
                 in Inr (vote, check_reveal_threshold s' poll_id poll)))"

text \<open>
  \<open>reveal_poll\<close>: the flags are set first; the aggregates are written only when the
  poll has votes (\<open>if votes:\<close>). \<open>//\<close> is floor division, as \<open>div\<close> on \<open>int\<close> is.
\<close>

definition freeze_scores :: "int list \<Rightarrow> conviction_poll \<Rightarrow> conviction_poll" where
  "freeze_scores scores poll =
     (case scores of
        [] \<Rightarrow> poll
      | x # xs \<Rightarrow>
          poll\<lparr>average_score := Some (sum_list scores div int (length scores)),
               divergence_score := Some (fold max xs x - fold min xs x)\<rparr>)"

definition reveal_poll ::
  "uuid \<Rightarrow> poll_db \<Rightarrow> uuid \<Rightarrow> uuid \<Rightarrow> error + (conviction_poll \<times> poll_db)" where
  "reveal_poll firm_id s poll_id revealed_by =
     (case get_poll firm_id s poll_id of
        Inl e \<Rightarrow> Inl e
      | Inr poll \<Rightarrow>
          let poll1 = poll\<lparr>is_revealed := True, is_active := False\<rparr>;
              votes = votes_of_poll s poll_id;
              poll2 = freeze_scores (map conviction_score votes) poll1
          in Inr (poll2, s\<lparr>conviction_polls := (conviction_polls s)(poll_id \<mapsto> poll2)\<rparr>))"

text \<open>
  \<open>get_poll_votes\<close>: one response per vote of the poll; identity and notes are copied
  only under the guard. The parameter \<open>include_identities\<close> is never read.
\<close>

definition vote_response :: "poll_db \<Rightarrow> conviction_poll \<Rightarrow> uuid \<Rightarrow> poll_vote \<Rightarrow> poll_vote_response" where
  "vote_response s poll requester_id vote =
     (let response =
        \<lparr>r_id = vote_id vote, r_poll_id = vote_poll_id vote,
         r_conviction_score = conviction_score vote,
         r_red_flags = red_flags vote, r_green_flags = green_flags vote,
         r_submitted_at = submitted_at vote,
         r_user_id = None, r_user_name = None,
         r_red_flag_notes = None, r_green_flag_notes = None\<rparr>
      in if is_revealed poll \<or> vote_user_id vote = requester_id
         then response\<lparr>r_user_id := Some (vote_user_id vote),
                       r_user_name := user_full_name s (vote_user_id vote),
                       r_red_flag_notes := red_flag_notes vote,
                       r_green_flag_notes := green_flag_notes vote\<rparr>
         else response)"

definition get_poll_votes ::
  "uuid \<Rightarrow> poll_db \<Rightarrow> uuid \<Rightarrow> uuid \<Rightarrow> bool \<Rightarrow> error + poll_vote_response list" where
  "get_poll_votes firm_id s poll_id requester_id include_identities =
     (case get_poll firm_id s poll_id of
        Inl e \<Rightarrow> Inl e
      | Inr poll \<Rightarrow> Inr (map (vote_response s poll requester_id) (votes_of_poll s poll_id)))"

subsection \<open>DivergenceAnalyzer (services/courage/divergence.py)\<close>

record divergence_view =
  dv_poll_id :: uuid
  dv_deal_id :: uuid
  dv_company_name :: string
  total_votes :: nat
  dv_average_score :: real
  min_score :: int
  max_score :: int
  divergence :: int
  std_deviation :: real
  score_distribution :: "(int \<times> nat) list"
  top_red_flags :: "(string \<times> nat) list"
  top_green_flags :: "(string \<times> nat) list"
  has_consensus :: bool
  needs_discussion :: bool
  dv_votes :: "poll_vote_response list option"

text \<open>
  Floating point. A double is the real number it stands for. \<open>float64 x\<close> is the
  double nearest the real \<open>x\<close>, a tie going to the even significand (for magnitudes in
  the normal range of the format, where the doubles between \<open>2^e\<close> and \<open>2^(e+1)\<close> are
  \<open>2^(e-52)\<close> apart).
\<close>

definition round_half_even :: "real \<Rightarrow> int" where
  "round_half_even y =
     (let f = \<lfloor>y\<rfloor>; d = y - real_of_int f
      in if d < 1 / 2 then f
         else if 1 / 2 < d then f + 1
         else if even f then f else f + 1)"

definition float64 :: "real \<Rightarrow> real" where
  "float64 x =
     (if x = 0 then 0
      else let ulp = 2 powr (real_of_int \<lfloor>log 2 \<bar>x\<bar>\<rfloor> - 52)
           in real_of_int (round_half_even (x / ulp)) * ulp)"

text \<open>
  \<open>statistics.mean\<close> of integers is the exact fraction \<open>sum / n\<close>, handed back as the
  nearest double (as the integer itself when the fraction is one). \<open>statistics.stdev\<close>
  is the square root of the exact sample variance, rounded to a double. \<open>round(x, 2)\<close>
  of a double rounds its exact value to the nearest hundredth, a tie going to the even
  hundredth, and hands back the double nearest that decimal.
\<close>

definition exact_mean :: "int list \<Rightarrow> real" where
  "exact_mean xs = real_of_int (sum_list xs) / real (length xs)"

definition mean :: "int list \<Rightarrow> real" where
  "mean xs = float64 (exact_mean xs)"

definition stdev :: "int list \<Rightarrow> real" where
  "stdev xs =
     float64 (sqrt ((\<Sum>x\<leftarrow>xs. (real_of_int x - exact_mean xs)\<^sup>2) / real (length xs - 1)))"

definition py_round2 :: "real \<Rightarrow> real" where
  "py_round2 x = float64 (real_of_int (round_half_even (x * 100)) / 100)"

text \<open>
  \<open>Counter(xs)\<close> keeps its keys in first-seen order; \<open>most_common(n)\<close> is the first
  \<open>n\<close> entries of a stable sort by descending count.
\<close>

definition counter :: "'a list \<Rightarrow> ('a \<times> nat) list" where
  "counter xs = map (\<lambda>k. (k, count_list xs k)) (rev (remdups (rev xs)))"

definition most_common :: "nat \<Rightarrow> ('a \<times> nat) list \<Rightarrow> ('a \<times> nat) list" where
  "most_common n c = take n (sort_key (\<lambda>kc. - int (snd kc)) c)"

definition all_flags :: "(poll_vote \<Rightarrow> string list option) \<Rightarrow> poll_vote list \<Rightarrow> string list" where
  "all_flags flags votes =
     concat (map (\<lambda>v. case flags v of None \<Rightarrow> [] | Some fs \<Rightarrow> fs) votes)"

definition lead_vote_response :: "poll_db \<Rightarrow> conviction_poll \<Rightarrow> poll_vote \<Rightarrow> poll_vote_response" where
  "lead_vote_response s poll v =
     \<lparr>r_id = vote_id v, r_poll_id = vote_poll_id v,
      r_conviction_score = conviction_score v,
      r_red_flags = red_flags v, r_green_flags = green_flags v,
      r_submitted_at = submitted_at v,
      r_user_id = (if is_revealed poll then Some (vote_user_id v) else None),
      r_user_name = (if is_revealed poll then user_full_name s (vote_user_id v) else None),
      r_red_flag_notes = (if is_revealed poll then red_flag_notes v else None),
      r_green_flag_notes = (if is_revealed poll then green_flag_notes v else None)\<rparr>"

text \<open>
  \<open>get_divergence_view\<close>. The histogram is a dictionary with the keys 1 to 10, so
  \<open>distribution[score] += 1\<close> raises \<open>KeyError\<close> at the first score outside that range;
  \<open>poll.deal.company_name\<close> fails when the poll's deal is missing.
\<close>

definition get_divergence_view ::
  "uuid \<Rightarrow> poll_db \<Rightarrow> uuid \<Rightarrow> uuid \<Rightarrow> bool \<Rightarrow> error + divergence_view" where
  "get_divergence_view firm_id s poll_id requester_id is_lead_partner =
     (case get_poll firm_id s poll_id of
        Inl e \<Rightarrow> Inl e
      | Inr poll \<Rightarrow>
          let votes = votes_of_poll s poll_id in
          (case map conviction_score votes of
             [] \<Rightarrow> Inl (ValueError ''No votes submitted yet'')
           | x # xs \<Rightarrow>
               let scores = x # xs;
                   min_sc = fold min xs x;
                   max_sc = fold max xs x;
                   dvg = max_sc - min_sc;
                   avg_score = mean scores;
                   std_dev = (if length scores > 1 then stdev scores else 0)
               in (case find (\<lambda>sc. sc < 1 \<or> 10 < sc) scores of
                     Some bad \<Rightarrow> Inl (KeyError bad)
                   | None \<Rightarrow>
                       let distribution = map (\<lambda>i. (i, count_list scores i)) [1..10];
                           vote_responses =
                             (if is_revealed poll \<or> is_lead_partner
                              then Some (map (lead_vote_response s poll) votes)
                              else None)
                       in (case deal_company_name s (poll_deal_id poll) of
                             None \<Rightarrow> Inl AttributeError
                           | Some name \<Rightarrow>
                               Inr \<lparr>dv_poll_id = poll_id,
                                    dv_deal_id = poll_deal_id poll,
                                    dv_company_name = name,
                                    total_votes = length votes,
                                    dv_average_score = py_round2 avg_score,
                                    min_score = min_sc,
                                    max_score = max_sc,
                                    divergence = dvg,
                                    std_deviation = py_round2 std_dev,
                                    score_distribution = distribution,
                                    top_red_flags = most_common 5 (counter (all_flags red_flags votes)),
                                    top_green_flags = most_common 5 (counter (all_flags green_flags votes)),
                                    has_consensus = (dvg \<le> 2),
                                    needs_discussion = (dvg \<ge> 5),
                                    dv_votes = vote_responses\<rparr>))))"

section \<open>Vector store: models/document.py, services/memory\<close>

text \<open>
  An embedding is a vector of numbers. What the services call and this repository does
  not define is a parameter of every function that uses it: the sentence-transformer
  model (\<open>encode\<close>, which may fail), pgvector's cosine-distance operator \<open><=>\<close>
  (\<open>cos_dist\<close>), PostgreSQL's \<open>LOWER\<close> (\<open>sql_lower\<close>), Python's \<open>str.lower\<close>
  (\<open>lower\<close>) and the floating-point operations of numpy (\<open>numpy\<close>).
\<close>

type_synonym embedding = "real list"

record document =
  doc_id :: uuid
  doc_firm_id :: uuid
  doc_deal_id :: "uuid option"
  original_filename :: string
  doc_document_type :: string
  extracted_company :: "string option"

record document_chunk =
  chunk_id :: uuid
  chunk_document_id :: uuid
  chunk_firm_id :: uuid
  content :: string
  chunk_index :: int
  page_number :: "int option"
  chunk_embedding :: "embedding option"
  section_type :: "string option"

datatype deal_stage =
  INBOUND | SCREENING | FIRST_MEETING | DEEP_DIVE | IC_REVIEW | TERM_SHEET
  | DUE_DILIGENCE | CLOSED | PASSED

record deal =
  deal_id :: uuid
  deal_firm_id :: uuid
  company_name :: string
  description :: "string option"
  one_liner :: "string option"
  stage :: deal_stage
  sector :: "string option"
  asking_valuation :: "real option"
  pass_reason :: "string option"
  deal_updated_at :: "datetime option"

text \<open>
  The tables the searches read, in table order, and \<open>db_failure\<close>: the exception the
  database driver raises on \<open>execute\<close> in this session (a lost connection, a timeout),
  if any.
\<close>

record vector_db =
  documents :: "document list"
  document_chunks :: "document_chunk list"
  deals :: "deal list"
  db_failure :: "error option"

text \<open>
  \<open>db.execute\<close> of an ORM query (\<open>select(Deal)...\<close>) hands back the rows the query
  denotes, unless the session fails. A negative \<open>LIMIT\<close> is an error of the server.
\<close>

definition execute :: "vector_db \<Rightarrow> 'a \<Rightarrow> error + 'a" where
  "execute s rows = (case db_failure s of Some e \<Rightarrow> Inl e | None \<Rightarrow> Inr rows)"

definition sql_limit :: "int \<Rightarrow> 'a list \<Rightarrow> error + 'a list" where
  "sql_limit n rows =
     (if n < 0 then Inl (DatabaseError ''LIMIT must not be negative'')
      else Inr (take (nat n) rows))"

text \<open>
  \<open>db.execute(text(...), params)\<close> sends the statement as it is written, through asyncpg,
  with the names \<open>text()\<close> binds turned into parameters of a prepared statement. Two of
  the statements of the services cannot be executed as they are written, whatever the
  tables hold:
  \<^item> \<open>SET app.current_firm_id = :firm_id\<close> carries a bind parameter, and \<open>SET\<close> accepts
    none (db/session.py says so, and interpolates the value instead);
  \<^item> the vector queries write the query vector as \<open>:query_vector::vector\<close>; a name
    that a colon follows is not bound as it is written, so the value passed for
    \<open>query_vector\<close> reaches no parameter of the statement.
  In both cases \<open>execute\<close> raises: the session's own failure if it has one, the
  rejection of the statement otherwise. The second argument of \<open>execute_vector_query\<close>
  is what the query denotes over the tables; it is never handed back.
\<close>

definition execute_set_firm_id :: "vector_db \<Rightarrow> error + unit" where
  "execute_set_firm_id s =
     (case db_failure s of
        Some e \<Rightarrow> Inl e
      | None \<Rightarrow> Inl (DatabaseError ''SET does not accept bind parameters''))"

definition execute_vector_query :: "vector_db \<Rightarrow> 'a \<Rightarrow> error + 'a" where
  "execute_vector_query s rows =
     (case db_failure s of
        Some e \<Rightarrow> Inl e
      | None \<Rightarrow> Inl (DatabaseError ''query_vector is not bound''))"

definition set_rls_context :: "vector_db \<Rightarrow> error + unit" where
  "set_rls_context s = execute_set_firm_id s"

subsection \<open>EmbeddingService (services/memory/embeddings.py)\<close>

definition embed_text :: "(string \<Rightarrow> error + embedding) \<Rightarrow> nat \<Rightarrow> string \<Rightarrow> error + embedding" where
  "embed_text encode dimension text = (if text = [] then Inr (replicate dimension 0) else encode text)"

text \<open>
  \<open>compute_similarity\<close> is float64 arithmetic of numpy: \<open>np.dot\<close> (which raises on
  vectors of different lengths), \<open>np.linalg.norm\<close>, a product and a quotient of doubles.
\<close>

record numpy =
  np_dot :: "embedding \<Rightarrow> embedding \<Rightarrow> error + real"
  np_norm :: "embedding \<Rightarrow> real"
  np_mul :: "real \<Rightarrow> real \<Rightarrow> real"
  np_div :: "real \<Rightarrow> real \<Rightarrow> real"

definition compute_similarity :: "numpy \<Rightarrow> embedding \<Rightarrow> embedding \<Rightarrow> error + real" where
  "compute_similarity np embedding1 embedding2 =
     (case np_dot np embedding1 embedding2 of
        Inl e \<Rightarrow> Inl e
      | Inr dot_product \<Rightarrow>
          let norm1 = np_norm np embedding1;
              norm2 = np_norm np embedding2
          in if norm1 = 0 \<or> norm2 = 0 then Inr 0
             else Inr (np_div np dot_product (np_mul np norm1 norm2)))"

subsection \<open>Strings: \<open>LIKE '%...%'\<close> and \<open>x or ''\<close>\<close>

fun contains :: "string \<Rightarrow> string \<Rightarrow> bool" where
  "contains pat [] = (pat = [])"
| "contains pat (c # cs) = (take (length pat) (c # cs) = pat \<or> contains pat cs)"

definition or_empty :: "string option \<Rightarrow> string" where
  "or_empty x = (case x of None \<Rightarrow> [] | Some v \<Rightarrow> v)"

subsection \<open>VectorStore (services/memory/vector_store.py)\<close>

record search_result =
  sr_chunk_id :: uuid
  sr_document_id :: uuid
  sr_deal_id :: "uuid option"
  sr_content :: string
  sr_chunk_index :: int
  sr_page_number :: "int option"
  sr_section_type :: "string option"
  sr_document_title :: string
  sr_similarity :: real


text \<open>
  \<open>FROM document_chunks dc JOIN documents d ON dc.document_id = d.id\<close>, each row with
  its distance to the query vector. A chunk whose embedding is NULL has a NULL distance:
  no comparison with it is true, so no search selects it.
\<close>

definition joined_rows ::
  "(embedding \<Rightarrow> embedding \<Rightarrow> real) \<Rightarrow> embedding \<Rightarrow> vector_db
     \<Rightarrow> (document_chunk \<times> document \<times> real) list" where
  "joined_rows cos_dist query_vector s =
     concat (map (\<lambda>dc.
       case chunk_embedding dc of
         None \<Rightarrow> []
       | Some e \<Rightarrow>
           map (\<lambda>d. (dc, d, cos_dist e query_vector))
             (filter (\<lambda>d. doc_id d = chunk_document_id dc) (documents s)))
       (document_chunks s))"

definition order_by_distance ::
  "(document_chunk \<times> document \<times> real) list \<Rightarrow> (document_chunk \<times> document \<times> real) list" where
  "order_by_distance rows = sort_key (\<lambda>r. snd (snd r)) rows"

definition similarity_where ::
  "uuid \<Rightarrow> real \<Rightarrow> uuid option \<Rightarrow> string option \<Rightarrow> (document_chunk \<times> document \<times> real) \<Rightarrow> bool" where
  "similarity_where firm_id min_similarity document_id document_type r =
     (case r of (dc, d, distance) \<Rightarrow>
        chunk_firm_id dc = firm_id
        \<and> doc_firm_id d = firm_id
        \<and> (case document_id of None \<Rightarrow> True | Some i \<Rightarrow> chunk_document_id dc = i)
        \<and> (case document_type of
             None \<Rightarrow> True
           | Some ty \<Rightarrow> if ty = [] then True else doc_document_type d = ty)
        \<and> 1 - distance \<ge> min_similarity)"

definition to_search_result :: "(document_chunk \<times> document \<times> real) \<Rightarrow> search_result" where
  "to_search_result r =
     (case r of (dc, d, distance) \<Rightarrow>
        \<lparr>sr_chunk_id = chunk_id dc, sr_document_id = chunk_document_id dc,
         sr_deal_id = doc_deal_id d, sr_content = content dc,
         sr_chunk_index = chunk_index dc, sr_page_number = page_number dc,
         sr_section_type = section_type dc, sr_document_title = original_filename d,
         sr_similarity = 1 - distance\<rparr>)"

text \<open>
  What each query denotes over the tables, before its \<open>LIMIT\<close>: the rows of the join
  that its \<open>WHERE\<close> clause accepts, nearest first.
\<close>

definition similarity_query ::
  "(embedding \<Rightarrow> embedding \<Rightarrow> real) \<Rightarrow> uuid \<Rightarrow> vector_db \<Rightarrow> embedding \<Rightarrow> real
     \<Rightarrow> uuid option \<Rightarrow> string option \<Rightarrow> (document_chunk \<times> document \<times> real) list" where
  "similarity_query cos_dist firm_id s query_embedding min_similarity document_id document_type =
     order_by_distance
       (filter (similarity_where firm_id min_similarity document_id document_type)
          (joined_rows cos_dist query_embedding s))"

definition similarity_search ::
  "(embedding \<Rightarrow> embedding \<Rightarrow> real) \<Rightarrow> (string \<Rightarrow> error + embedding) \<Rightarrow> nat \<Rightarrow> uuid
     \<Rightarrow> vector_db \<Rightarrow> string \<Rightarrow> int \<Rightarrow> real \<Rightarrow> uuid option \<Rightarrow> string option
     \<Rightarrow> error + search_result list" where
  "similarity_search cos_dist encode dimension firm_id s query limit min_similarity document_id document_type =
     (case set_rls_context s of
        Inl e \<Rightarrow> Inl e
      | Inr _ \<Rightarrow>
          (case embed_text encode dimension query of
             Inl e \<Rightarrow> Inl e
           | Inr query_embedding \<Rightarrow>
               (case execute_vector_query s
                   (similarity_query cos_dist firm_id s query_embedding min_similarity
                      document_id document_type) of
                  Inl e \<Rightarrow> Inl e
                | Inr selected \<Rightarrow>
                    (case sql_limit limit selected of
                       Inl e \<Rightarrow> Inl e
                     | Inr rows \<Rightarrow> Inr (map to_search_result rows)))))"

definition search_historical_memos ::
  "(embedding \<Rightarrow> embedding \<Rightarrow> real) \<Rightarrow> (string \<Rightarrow> error + embedding) \<Rightarrow> nat \<Rightarrow> uuid
     \<Rightarrow> vector_db \<Rightarrow> string \<Rightarrow> int \<Rightarrow> error + search_result list" where
  "search_historical_memos cos_dist encode dimension firm_id s query limit =
     similarity_search cos_dist encode dimension firm_id s query limit (float64 (6 / 10)) None
       (Some ''ic_memo'')"

definition pass_keywords :: "string list" where
  "pass_keywords = [''pass'', ''concern'', ''risk'', ''not invest'', ''decline'', ''red flag'']"

definition pass_where ::
  "(string \<Rightarrow> string) \<Rightarrow> uuid \<Rightarrow> (document_chunk \<times> document \<times> real) \<Rightarrow> bool" where
  "pass_where sql_lower firm_id r =
     (case r of (dc, d, distance) \<Rightarrow>
        chunk_firm_id dc = firm_id
        \<and> doc_firm_id d = firm_id
        \<and> doc_document_type d = ''ic_memo''
        \<and> (\<exists>k \<in> set pass_keywords. contains k (sql_lower (content dc)))
        \<and> 1 - distance \<ge> 1 / 2)"




section \<open>GhostLossAnalyzer (services/ghostwriter/ghost_loss_analyzer.py)\<close>

text \<open>
  A pattern is the dictionary the two passes build: the keys one pass does not set are
  \<open>None\<close>. Both passes always set \<open>company_name\<close> (a string: the deal's name, or the
  extracted company or else the file name of the memo) and \<open>similarity\<close>.
\<close>

record pattern =
  p_type :: string
  p_deal_id :: "uuid option"
  p_chunk_id :: "uuid option"
  p_document_id :: "uuid option"
  p_company_name :: string
  p_sector :: "string option"
  p_pass_reason :: "string option"
  p_pass_date :: "datetime option"
  p_similarity :: real
  p_one_liner :: "string option"
  p_asking_valuation :: "real option"
  p_source_content :: "string option"

text \<open>\<open>xs[:n]\<close>: a negative \<open>n\<close> drops the last \<open>-n\<close> elements.\<close>

definition py_slice_to :: "int \<Rightarrow> 'a list \<Rightarrow> 'a list" where
  "py_slice_to n xs =
     (if n \<ge> 0 then take (nat n) xs else take (length xs - nat (- n)) xs)"

text \<open>\<open>sorted(xs, key=similarity, reverse=True)\<close>: stable, highest similarity first.\<close>

definition sort_by_similarity :: "pattern list \<Rightarrow> pattern list" where
  "sort_by_similarity patterns = sort_key (\<lambda>x. - p_similarity x) patterns"

subsection \<open>The structured pass: \<open>_find_similar_passed_deals\<close>\<close>

definition passed_deal_where :: "uuid \<Rightarrow> deal \<Rightarrow> deal \<Rightarrow> bool" where
  "passed_deal_where firm_id deal d =
     (deal_firm_id d = firm_id
      \<and> stage d = PASSED
      \<and> pass_reason d \<noteq> None
      \<and> (if or_empty (sector deal) \<noteq> [] then sector d = sector deal else True))"

text \<open>\<open>ORDER BY updated_at DESC\<close>: PostgreSQL puts the NULLs first.\<close>

definition order_by_updated_desc :: "deal list \<Rightarrow> deal list" where
  "order_by_updated_desc ds =
     filter (\<lambda>d. deal_updated_at d = None) ds
     @ sort_key (\<lambda>d. case deal_updated_at d of None \<Rightarrow> 0 | Some t \<Rightarrow> - t)
         (filter (\<lambda>d. deal_updated_at d \<noteq> None) ds)"

definition deal_text :: "deal \<Rightarrow> string" where
  "deal_text deal =
     company_name deal @ '' '' @ or_empty (one_liner deal) @ '' ''
       @ or_empty (description deal) @ '' '' @ or_empty (sector deal)"

definition passed_text :: "deal \<Rightarrow> string" where
  "passed_text passed_deal =
     company_name passed_deal @ '' '' @ or_empty (one_liner passed_deal) @ '' ''
       @ or_empty (description passed_deal)"

definition passed_deal_pattern :: "deal \<Rightarrow> real \<Rightarrow> pattern" where
  "passed_deal_pattern passed_deal similarity =
     \<lparr>p_type = ''passed_deal'',
      p_deal_id = Some (deal_id passed_deal),
      p_chunk_id = None,
      p_document_id = None,
      p_company_name = company_name passed_deal,
      p_sector = sector passed_deal,
      p_pass_reason = pass_reason passed_deal,
      p_pass_date = deal_updated_at passed_deal,
      p_similarity = similarity,
      p_one_liner = one_liner passed_deal,
      p_asking_valuation =
        (case asking_valuation passed_deal of
           None \<Rightarrow> None
         | Some v \<Rightarrow> if v = 0 then None else Some v),
      p_source_content = None\<rparr>"

text \<open>The scoring loop: a deal is kept when \<open>similarity > 0.5\<close>.\<close>

fun score_deals ::
  "numpy \<Rightarrow> (string \<Rightarrow> error + embedding) \<Rightarrow> nat \<Rightarrow> embedding \<Rightarrow> deal list
     \<Rightarrow> error + pattern list" where
  "score_deals np encode dimension deal_embedding [] = Inr []"
| "score_deals np encode dimension deal_embedding (passed_deal # rest) =
     (case embed_text encode dimension (passed_text passed_deal) of
        Inl e \<Rightarrow> Inl e
      | Inr passed_embedding \<Rightarrow>
          (case compute_similarity np deal_embedding passed_embedding of
             Inl e \<Rightarrow> Inl e
           | Inr similarity \<Rightarrow>
               (case score_deals np encode dimension deal_embedding rest of
                  Inl e \<Rightarrow> Inl e
                | Inr scored_deals \<Rightarrow>
                    Inr (if similarity > 1 / 2
                         then passed_deal_pattern passed_deal similarity # scored_deals
                         else scored_deals))))"

definition find_similar_passed_deals ::
  "numpy \<Rightarrow> (string \<Rightarrow> error + embedding) \<Rightarrow> nat \<Rightarrow> uuid \<Rightarrow> vector_db \<Rightarrow> deal \<Rightarrow> int
     \<Rightarrow> error + pattern list" where
  "find_similar_passed_deals np encode dimension firm_id s deal limit =
     (case execute s (order_by_updated_desc (filter (passed_deal_where firm_id deal) (deals s))) of
        Inl e \<Rightarrow> Inl e
      | Inr selected \<Rightarrow>
          (case sql_limit (limit * 2) selected of
             Inl e \<Rightarrow> Inl e
           | Inr passed_deals \<Rightarrow>
               if passed_deals = [] then Inr []
               else
                 (case embed_text encode dimension (deal_text deal) of
                    Inl e \<Rightarrow> Inl e
                  | Inr deal_embedding \<Rightarrow>
                      (case score_deals np encode dimension deal_embedding passed_deals of
                         Inl e \<Rightarrow> Inl e
                       | Inr scored_deals \<Rightarrow>
                           Inr (py_slice_to limit (sort_by_similarity scored_deals))))))"

subsection \<open>The narrative pass: \<open>_search_pass_vectors\<close>\<close>

text \<open>
  The query of this pass filters on \<open>dc.firm_id\<close> only and has five keywords; it
  writes \<open>:query_vector::vector\<close> as the queries of the vector store do. The embedding
  is computed before the \<open>try\<close>; the query and the loop over its rows are inside it,
  and \<open>except Exception\<close> logs the error and goes on to \<open>return all_results\<close>.
  \<open>extract\<close> is \<open>_extract_pass_reason\<close>, a regular-expression heuristic on the content.
\<close>

definition memo_keywords :: "string list" where
  "memo_keywords = [''pass'', ''concern'', ''risk'', ''not invest'', ''decline'']"

definition memo_where ::
  "(string \<Rightarrow> string) \<Rightarrow> uuid \<Rightarrow> (document_chunk \<times> document \<times> real) \<Rightarrow> bool" where
  "memo_where sql_lower firm_id r =
     (case r of (dc, d, distance) \<Rightarrow>
        chunk_firm_id dc = firm_id
        \<and> doc_document_type d = ''ic_memo''
        \<and> (\<exists>k \<in> set memo_keywords. contains k (sql_lower (content dc)))
        \<and> 1 - distance \<ge> 1 / 2)"

definition memo_text :: "deal \<Rightarrow> string" where
  "memo_text deal =
     company_name deal @ '' '' @ or_empty (one_liner deal) @ '' '' @ or_empty (sector deal)"

definition memo_pattern :: "(string \<Rightarrow> string) \<Rightarrow> (document_chunk \<times> document \<times> real) \<Rightarrow> pattern" where
  "memo_pattern extract r =
     (case r of (dc, d, distance) \<Rightarrow>
        \<lparr>p_type = ''historical_memo'',
         p_deal_id = None,
         p_chunk_id = Some (chunk_id dc),
         p_document_id = Some (chunk_document_id dc),
         p_company_name =
           (if or_empty (extracted_company d) \<noteq> [] then or_empty (extracted_company d)
            else original_filename d),
         p_sector = None,
         p_pass_reason = Some (extract (content dc)),
         p_pass_date = None,
         p_similarity = 1 - distance,
         p_one_liner = None,
         p_asking_valuation = None,
         p_source_content = Some (take 500 (content dc))\<rparr>)"

definition memo_query ::
  "(embedding \<Rightarrow> embedding \<Rightarrow> real) \<Rightarrow> (string \<Rightarrow> string) \<Rightarrow> uuid \<Rightarrow> vector_db
     \<Rightarrow> embedding \<Rightarrow> (document_chunk \<times> document \<times> real) list" where
  "memo_query cos_dist sql_lower firm_id s query_embedding =
     order_by_distance
       (filter (memo_where sql_lower firm_id) (joined_rows cos_dist query_embedding s))"

definition search_pass_vectors ::
  "(embedding \<Rightarrow> embedding \<Rightarrow> real) \<Rightarrow> (string \<Rightarrow> string)
     \<Rightarrow> (string \<Rightarrow> error + embedding) \<Rightarrow> nat
     \<Rightarrow> (string \<Rightarrow> string) \<Rightarrow> uuid \<Rightarrow> vector_db \<Rightarrow> deal \<Rightarrow> int \<Rightarrow> error + pattern list" where
  "search_pass_vectors cos_dist sql_lower encode dimension extract firm_id s deal limit =
     (case embed_text encode dimension (memo_text deal) of
        Inl e \<Rightarrow> Inl e
      | Inr query_embedding \<Rightarrow>
          (case execute_vector_query s (memo_query cos_dist sql_lower firm_id s query_embedding) of
             Inl e \<Rightarrow> Inr []
           | Inr selected \<Rightarrow>
               (case sql_limit limit selected of
                  Inl e \<Rightarrow> Inr []
                | Inr rows \<Rightarrow> Inr (map (memo_pattern extract) rows))))"

subsection \<open>\<open>_deduplicate_and_rank\<close> and \<open>find_ghost_loss_patterns\<close>\<close>




section \<open>Example states\<close>

text \<open>
  A poll of firm 1 on deal 7 with three votes, of scores 4, 9 and 8, by the users 21,
  22 and 23.
\<close>

definition ex_poll :: conviction_poll where
  "ex_poll =
     \<lparr>poll_deal_id = 7, poll_firm_id = 1, is_active = True, is_revealed = False,
      reveal_threshold = 3, closes_at = None, divergence_score = None,
      average_score = None\<rparr>"

definition ex_vote :: "uuid \<Rightarrow> uuid \<Rightarrow> int \<Rightarrow> poll_vote" where
  "ex_vote i u sc =
     \<lparr>vote_id = i, vote_poll_id = 5, vote_user_id = u, conviction_score = sc,
      red_flags = None, red_flag_notes = None, green_flags = None,
      green_flag_notes = None, private_notes = None, submitted_at = 0, updated_at = 0\<rparr>"

definition ex_db :: poll_db where
  "ex_db =
     \<lparr>conviction_polls = [5 \<mapsto> ex_poll],
      poll_votes = [ex_vote 11 21 4, ex_vote 12 22 9, ex_vote 13 23 8],
      user_full_name = Map.empty, deal_company_name = [7 \<mapsto> ''Acme'']\<rparr>"


text \<open>The same poll before anyone has voted.\<close>

definition ex_db_no_votes :: poll_db where
  "ex_db_no_votes = ex_db\<lparr>poll_votes := []\<rparr>"

text \<open>
  The example poll after its reveal, and the same state with one more vote row of the
  poll (score 1, user 24) written to the table by something other than a call of
  \<open>submit_vote\<close> on that state.
\<close>

definition ex_db_revealed :: poll_db where
  "ex_db_revealed =
     ex_db\<lparr>conviction_polls :=
       [5 \<mapsto> ex_poll\<lparr>is_revealed := True, is_active := False,
                       average_score := Some 7, divergence_score := Some 5\<rparr>]\<rparr>"

definition ex_db_late_vote :: poll_db where
  "ex_db_late_vote =
     ex_db_revealed\<lparr>poll_votes := poll_votes ex_db_revealed @ [ex_vote 14 24 1]\<rparr>"

text \<open>A submission with the given score and one red flag.\<close>

definition ex_data :: "int \<Rightarrow> poll_vote_create" where
  "ex_data sc =
     \<lparr>c_conviction_score = sc, c_red_flags = Some [''team risk''], c_red_flag_notes = None,
      c_green_flags = None, c_green_flag_notes = None, c_private_notes = None\<rparr>"

text \<open>
  The example poll with names and notes: user 21 is Ada, user 22 is Bob, and each vote
  carries a note on its red flags.
\<close>

definition ex_named_vote :: "uuid \<Rightarrow> uuid \<Rightarrow> int \<Rightarrow> string \<Rightarrow> poll_vote" where
  "ex_named_vote i u sc note = (ex_vote i u sc)\<lparr>red_flag_notes := Some note\<rparr>"

definition ex_db_named :: poll_db where
  "ex_db_named =
     ex_db\<lparr>poll_votes := [ex_named_vote 11 21 4 ''too early'', ex_named_vote 12 22 9 ''none''],
           user_full_name := [21 \<mapsto> ''Ada'', 22 \<mapsto> ''Bob'']\<rparr>"

text \<open>The same votes cast the other way round: by Bob and by Ada, with other notes.\<close>

definition ex_db_swapped :: poll_db where
  "ex_db_swapped =
     ex_db_named\<lparr>poll_votes :=
       [ex_named_vote 11 22 4 ''valuation'', ex_named_vote 12 21 9 ''team'']\<rparr>"

text \<open>
  The lower-casing of the examples folds the letters A to Z and leaves every other
  character as it is: what \<open>str.lower\<close> and \<open>LOWER\<close> do on a text of ASCII characters,
  which the texts of the examples are.
\<close>

definition ex_lower_char :: "char \<Rightarrow> char" where
  "ex_lower_char c =
     (case map_of (zip ''ABCDEFGHIJKLMNOPQRSTUVWXYZ'' ''abcdefghijklmnopqrstuvwxyz'') c of
        Some l \<Rightarrow> l
      | None \<Rightarrow> c)"

definition ex_lower :: "string \<Rightarrow> string" where
  "ex_lower s = map ex_lower_char s"

text \<open>
  Two firms with one investment-committee memo each; the chunks have the same text and
  the same embedding. The encoder of the examples maps every text to the vector
  \<open>[1, 0]\<close>; the distance of the examples is 0 between equal vectors and 1 otherwise.
\<close>

definition ex_encode :: "string \<Rightarrow> error + embedding" where
  "ex_encode text = Inr [1, 0]"

definition ex_dist :: "embedding \<Rightarrow> embedding \<Rightarrow> real" where
  "ex_dist a b = (if a = b then 0 else 1)"

definition ex_document :: "uuid \<Rightarrow> uuid \<Rightarrow> document" where
  "ex_document i firm =
     \<lparr>doc_id = i, doc_firm_id = firm, doc_deal_id = None,
      original_filename = ''memo.txt'', doc_document_type = ''ic_memo'',
      extracted_company = Some ''Acme''\<rparr>"

definition ex_chunk :: "uuid \<Rightarrow> uuid \<Rightarrow> uuid \<Rightarrow> document_chunk" where
  "ex_chunk i doc firm =
     \<lparr>chunk_id = i, chunk_document_id = doc, chunk_firm_id = firm,
      content = ''We passed: key risk'', chunk_index = 0, page_number = None,
      chunk_embedding = Some [1, 0], section_type = None\<rparr>"

definition ex_vdb :: vector_db where
  "ex_vdb =
     \<lparr>documents = [ex_document 1 1, ex_document 2 2],
      document_chunks = [ex_chunk 101 1 1, ex_chunk 202 2 2],
      deals = [], db_failure = None\<rparr>"


text \<open>
  A new deal, an encoder that fails, and the example tables in a session whose database
  raises on \<open>execute\<close>.
\<close>

definition ex_deal :: deal where
  "ex_deal =
     \<lparr>deal_id = 9, deal_firm_id = 1, company_name = ''Nova'', description = None,
      one_liner = None, stage = INBOUND, sector = Some ''fintech'', asking_valuation = None,
      pass_reason = None, deal_updated_at = None\<rparr>"

definition ex_encode_down :: "string \<Rightarrow> error + embedding" where
  "ex_encode_down text = Inl (EmbeddingError ''model unavailable'')"

definition ex_vdb_down :: vector_db where
  "ex_vdb_down = ex_vdb\<lparr>db_failure := Some (DatabaseError ''connection lost'')\<rparr>"

text \<open>
  A deal the firm passed on, and an encoder that sends the new deal's text to
  \<open>[1, 0, 0, 0]\<close> and every other text to \<open>[1, 1, 1, 1]\<close>. On these two vectors every
  step of \<open>compute_similarity\<close> is exact in float64: the dot product is 1, the norms are
  1 and 2, their product is 2 and the quotient is 0.5. \<open>ex_numpy\<close> is numpy on such
  inputs: the exact dot product, norm, product and quotient.
\<close>

definition ex_numpy :: numpy where
  "ex_numpy =
     \<lparr>np_dot = (\<lambda>a b. if length a \<noteq> length b then Inl (ValueError ''shapes not aligned'')
                        else Inr (\<Sum>ab\<leftarrow>zip a b. fst ab * snd ab)),
      np_norm = (\<lambda>a. sqrt (\<Sum>x\<leftarrow>a. x\<^sup>2)),
      np_mul = (\<lambda>x y. x * y),
      np_div = (\<lambda>x y. x / y)\<rparr>"

definition ex_passed_deal :: deal where
  "ex_passed_deal =
     \<lparr>deal_id = 8, deal_firm_id = 1, company_name = ''Orbit'', description = None,
      one_liner = None, stage = PASSED, sector = Some ''fintech'', asking_valuation = None,
      pass_reason = Some ''too early'', deal_updated_at = Some 50\<rparr>"

definition ex_vdb_passed :: vector_db where
  "ex_vdb_passed = ex_vdb\<lparr>deals := [ex_passed_deal]\<rparr>"

definition ex_encode_half :: "string \<Rightarrow> error + embedding" where
  "ex_encode_half text =
     (if text = deal_text ex_deal then Inr [1, 0, 0, 0] else Inr [1, 1, 1, 1])"

section \<open>Basic facts about the polling services\<close>

lemma fold_max_Max: "fold max xs (x::int) = Max (set (x # xs))"
  by (rule Max.set_eq_fold[symmetric])

lemma fold_min_Min: "fold min xs (x::int) = Min (set (x # xs))"
  by (rule Min.set_eq_fold[symmetric])

lemma example_poll: "get_poll 1 ex_db 5 = Inr ex_poll"
  by (simp add: get_poll_def ex_db_def ex_poll_def)

lemma example_votes:
  "votes_of_poll ex_db 5 = [ex_vote 11 21 4, ex_vote 12 22 9, ex_vote 13 23 8]"
  by (simp add: votes_of_poll_def ex_db_def ex_vote_def)

lemma view_success:
  assumes poll: "get_poll firm_id s poll_id = Inr poll"
    and scores: "map conviction_score (votes_of_poll s poll_id) = x # xs"
    and range: "\<forall>sc \<in> set (x # xs). 1 \<le> sc \<and> sc \<le> 10"
    and deal: "deal_company_name s (poll_deal_id poll) = Some name"
  shows "\<exists>view. get_divergence_view firm_id s poll_id requester_id lead = Inr view
           \<and> min_score view = fold min xs x \<and> max_score view = fold max xs x
           \<and> divergence view = fold max xs x - fold min xs x
           \<and> has_consensus view = (fold max xs x - fold min xs x \<le> 2)
           \<and> needs_discussion view = (fold max xs x - fold min xs x \<ge> 5)
           \<and> dv_average_score view = py_round2 (mean (x # xs))"
proof -
  have "find (\<lambda>sc. sc < 1 \<or> 10 < sc) (x # xs) = None"
    using range by (auto simp: find_None_iff simp del: find.simps)
  then show ?thesis
    using poll scores deal
    by (simp add: get_divergence_view_def Let_def del: find.simps)
qed

lemma reveal_success:
  assumes "get_poll firm_id s poll_id = Inr poll"
  shows "reveal_poll firm_id s poll_id revealed_by =
     Inr (freeze_scores (map conviction_score (votes_of_poll s poll_id))
            (poll\<lparr>is_revealed := True, is_active := False\<rparr>),
          s\<lparr>conviction_polls := (conviction_polls s)(poll_id \<mapsto>
              freeze_scores (map conviction_score (votes_of_poll s poll_id))
                (poll\<lparr>is_revealed := True, is_active := False\<rparr>))\<rparr>)"
  using assms by (simp add: reveal_poll_def Let_def)


section \<open>Properties of the divergence analysis\<close>

text \<open>
  C8. When the poll is found, has votes with scores in 1..10 and its deal exists, the
  analysis returns a view whose \<open>min_score\<close> and \<open>max_score\<close> are the least and the
  greatest score, whose \<open>divergence\<close> is their difference, with \<open>has_consensus\<close> exactly
  when the divergence is at most 2 and \<open>needs_discussion\<close> exactly when it is at least
  5. For the scores 4, 9 and 8, in any order: 4, 9, 5, discussion needed, no consensus.
\<close>

theorem divergence_classification:
  assumes poll: "get_poll firm_id s poll_id = Inr poll"
    and votes: "votes_of_poll s poll_id \<noteq> []"
    and range: "\<forall>v \<in> set (votes_of_poll s poll_id).
                  1 \<le> conviction_score v \<and> conviction_score v \<le> 10"
    and deal: "deal_company_name s (poll_deal_id poll) = Some name"
  shows "\<exists>view. get_divergence_view firm_id s poll_id requester_id lead = Inr view
           \<and> min_score view = Min (conviction_score ` set (votes_of_poll s poll_id))
           \<and> max_score view = Max (conviction_score ` set (votes_of_poll s poll_id))
           \<and> divergence view = max_score view - min_score view
           \<and> (has_consensus view \<longleftrightarrow> divergence view \<le> 2)
           \<and> (needs_discussion view \<longleftrightarrow> divergence view \<ge> 5)
           \<and> (mset (map conviction_score (votes_of_poll s poll_id)) = {#4, 9, 8#} \<longrightarrow>
                 min_score view = 4 \<and> max_score view = 9 \<and> divergence view = 5
                 \<and> needs_discussion view \<and> \<not> has_consensus view)"
proof -
  obtain x xs where sc: "map conviction_score (votes_of_poll s poll_id) = x # xs"
    using votes by (cases "votes_of_poll s poll_id") auto
  have img: "conviction_score ` set (votes_of_poll s poll_id) = set (x # xs)"
    using sc by (metis set_map)
  have rng: "\<forall>sc \<in> set (x # xs). 1 \<le> sc \<and> sc \<le> 10"
    using range img by (metis (no_types, lifting) imageE)
  obtain view where v: "get_divergence_view firm_id s poll_id requester_id lead = Inr view"
    and mn: "min_score view = fold min xs x" and mx: "max_score view = fold max xs x"
    and dv: "divergence view = fold max xs x - fold min xs x"
    and hc: "has_consensus view = (fold max xs x - fold min xs x \<le> 2)"
    and nd: "needs_discussion view = (fold max xs x - fold min xs x \<ge> 5)"
    using view_success[OF poll sc rng deal] by blast
  have mn': "min_score view = Min (set (x # xs))" using mn by (simp only: fold_min_Min)
  have mx': "max_score view = Max (set (x # xs))" using mx by (simp only: fold_max_Max)
  have ex: "min_score view = 4 \<and> max_score view = 9"
    if m: "mset (map conviction_score (votes_of_poll s poll_id)) = {#4, 9, 8#}"
  proof -
    have "set_mset (mset (x # xs)) = {4, 9, 8}" using m sc by simp
    then have "set (x # xs) = {4, 9, 8}" by (simp only: set_mset_mset)
    then show ?thesis using mn' mx' by simp
  qed
  show ?thesis
    using v mn' mx' dv hc nd ex img mn mx by (intro exI[of _ view]) auto
qed

theorem divergence_classification_witness:
  "\<exists>view. get_divergence_view 1 ex_db 5 21 True = Inr view
     \<and> min_score view = 4 \<and> max_score view = 9 \<and> divergence view = 5
     \<and> needs_discussion view \<and> \<not> has_consensus view"
proof -
  have ne: "votes_of_poll ex_db 5 \<noteq> []" by (simp add: example_votes)
  have r: "\<forall>v \<in> set (votes_of_poll ex_db 5). 1 \<le> conviction_score v \<and> conviction_score v \<le> 10"
    by (simp add: example_votes ex_vote_def)
  have d: "deal_company_name ex_db (poll_deal_id ex_poll) = Some ''Acme''"
    by (simp add: ex_db_def ex_poll_def)
  have m: "mset (map conviction_score (votes_of_poll ex_db 5)) = {#4, 9, 8#}"
    by (simp add: example_votes ex_vote_def)
  show ?thesis
    using divergence_classification[OF example_poll ne r d, of 21 True] m by blast
qed

section \<open>The frozen average and the analyzer's mean\<close>

lemma round_half_even_of_int [simp]: "round_half_even (real_of_int k) = k"
  by (simp add: round_half_even_def)

lemma round_half_even_numeral [simp]: "round_half_even (numeral n) = numeral n"
  using round_half_even_of_int[of "numeral n"] by simp


lemma float64_binade:
  assumes "2 ^ k \<le> x" and "x < 2 ^ (Suc k)" and "k \<le> 52"
  shows "float64 x = real_of_int (round_half_even (x * 2 ^ (52 - k))) / 2 ^ (52 - k)"
proof -
  have pos: "0 < x" using assms(1) by (smt (verit) zero_less_power)
  have e: "\<lfloor>log 2 x\<rfloor> = int k"
    using assms pos by (subst floor_log_eq_powr_iff) (simp_all add: powr_realpow powr_add)
  have "2 powr (real_of_int (int k) - 52) = 2 powr (- real (52 - k))"
    using assms(3) by simp
  also have "\<dots> = 1 / 2 ^ (52 - k)"
    by (simp add: powr_minus powr_realpow inverse_eq_divide)
  finally have ulp: "2 powr (real_of_int (int k) - 52) = 1 / 2 ^ (52 - k)" .
  have "float64 x = real_of_int (round_half_even (x / 2 powr (real_of_int \<lfloor>log 2 x\<rfloor> - 52)))
                      * 2 powr (real_of_int \<lfloor>log 2 x\<rfloor> - 52)"
    using pos by (simp add: float64_def Let_def)
  also have "\<dots> = real_of_int (round_half_even (x / (1 / 2 ^ (52 - k)))) * (1 / 2 ^ (52 - k))"
    by (simp only: e ulp)
  also have "\<dots> = real_of_int (round_half_even (x * 2 ^ (52 - k))) / 2 ^ (52 - k)"
    by simp
  finally show ?thesis .
qed






lemma py_round2_43_40: "py_round2 (float64 (43 / 40)) = float64 (107 / 100)"
proof -
  have "float64 (43 / 40) = real_of_int (round_half_even (43 / 40 * 2 ^ 52)) / 2 ^ 52"
    using float64_binade[of 0 "43 / 40"] by simp
  also have "round_half_even (43 / 40 * 2 ^ 52) = 4841369599423283"
    by (simp add: round_half_even_def Let_def)
  finally have f: "float64 (43 / 40) = 4841369599423283 / 2 ^ 52" by simp
  have "round_half_even (4841369599423283 / 2 ^ 52 * 100) = 107"
    by (simp add: round_half_even_def Let_def)
  then show ?thesis by (simp add: py_round2_def f)
qed






section \<open>Reveal: the flag and the frozen aggregates\<close>

lemma freeze_scores_flags:
  "is_revealed (freeze_scores scores poll) = is_revealed poll"
  "is_active (freeze_scores scores poll) = is_active poll"
  "poll_firm_id (freeze_scores scores poll) = poll_firm_id poll"
  by (cases scores; simp add: freeze_scores_def)+

lemma freeze_scores_nonempty:
  "scores \<noteq> [] \<Longrightarrow> average_score (freeze_scores scores poll) \<noteq> None
     \<and> divergence_score (freeze_scores scores poll) \<noteq> None"
  by (cases scores) (simp_all add: freeze_scores_def)

lemma freeze_scores_empty: "freeze_scores [] poll = poll"
  by (simp add: freeze_scores_def)

text \<open>
  C3, as the code has it. \<open>reveal_poll\<close> on a poll of the firm stores the poll with
  \<open>is_revealed\<close> set and \<open>is_active\<close> cleared, in one update of the state. When the
  poll has at least one vote, the stored poll carries both aggregates; when it has
  none, \<open>average_score\<close> and \<open>divergence_score\<close> are left as they were.
\<close>

theorem reveal_sets_flag_and_aggregates:
  assumes poll: "get_poll firm_id s poll_id = Inr poll"
  shows "\<exists>p s'. reveal_poll firm_id s poll_id revealed_by = Inr (p, s')
           \<and> conviction_polls s' poll_id = Some p
           \<and> is_revealed p \<and> \<not> is_active p
           \<and> (votes_of_poll s poll_id \<noteq> [] \<longrightarrow>
                 average_score p \<noteq> None \<and> divergence_score p \<noteq> None)
           \<and> (votes_of_poll s poll_id = [] \<longrightarrow>
                 average_score p = average_score poll
                 \<and> divergence_score p = divergence_score poll)"
proof -
  let ?sc = "map conviction_score (votes_of_poll s poll_id)"
  let ?p = "freeze_scores ?sc (poll\<lparr>is_revealed := True, is_active := False\<rparr>)"
  let ?s = "s\<lparr>conviction_polls := (conviction_polls s)(poll_id \<mapsto> ?p)\<rparr>"
  have r: "reveal_poll firm_id s poll_id revealed_by = Inr (?p, ?s)"
    by (rule reveal_success[OF poll])
  have st: "conviction_polls ?s poll_id = Some ?p" by simp
  have fl: "is_revealed ?p \<and> \<not> is_active ?p" by (simp add: freeze_scores_flags)
  have ne: "votes_of_poll s poll_id \<noteq> [] \<longrightarrow>
              average_score ?p \<noteq> None \<and> divergence_score ?p \<noteq> None"
    using freeze_scores_nonempty[of ?sc] by simp
  have em: "votes_of_poll s poll_id = [] \<longrightarrow>
              average_score ?p = average_score poll \<and> divergence_score ?p = divergence_score poll"
    by (simp add: freeze_scores_empty)
  show ?thesis using r st fl ne em by blast
qed

theorem reveal_sets_flag_and_aggregates_witness:
  "\<exists>p s'. reveal_poll 1 ex_db 5 21 = Inr (p, s') \<and> conviction_polls s' 5 = Some p
     \<and> is_revealed p \<and> \<not> is_active p
     \<and> average_score p \<noteq> None \<and> divergence_score p \<noteq> None"
proof -
  have ne: "votes_of_poll ex_db 5 \<noteq> []" by (simp add: example_votes)
  show ?thesis
    using reveal_sets_flag_and_aggregates[OF example_poll, of 21] ne by blast
qed

text \<open>
  Revealing the example poll before anyone has voted: the stored poll is revealed and
  its aggregates are still absent.
\<close>

theorem reveal_without_votes_counterexample:
  "(case reveal_poll 1 ex_db_no_votes 5 21 of
      Inl e \<Rightarrow> None
    | Inr (p, s') \<Rightarrow>
        Some (is_revealed p, average_score p, divergence_score p,
              map_option is_revealed (conviction_polls s' 5),
              map_option average_score (conviction_polls s' 5)))
   = Some (True, None, None, Some True, Some None)"
  by (simp add: reveal_poll_def get_poll_def ex_db_no_votes_def ex_db_def ex_poll_def
      votes_of_poll_def freeze_scores_def Let_def)

section \<open>Reveal twice\<close>

lemma get_poll_Inr:
  "get_poll firm_id s poll_id = Inr poll \<longleftrightarrow>
     conviction_polls s poll_id = Some poll \<and> poll_firm_id poll = firm_id"
  by (auto simp: get_poll_def split: option.splits)

lemma freeze_scores_idem:
  "average_score (freeze_scores scores (freeze_scores scores poll))
     = average_score (freeze_scores scores poll)"
  "divergence_score (freeze_scores scores (freeze_scores scores poll))
     = divergence_score (freeze_scores scores poll)"
  by (cases scores; simp add: freeze_scores_def)+

lemma freeze_scores_again:
  "average_score (freeze_scores scores
       ((freeze_scores scores poll)\<lparr>is_revealed := True, is_active := False\<rparr>))
     = average_score (freeze_scores scores poll)"
  "divergence_score (freeze_scores scores
       ((freeze_scores scores poll)\<lparr>is_revealed := True, is_active := False\<rparr>))
     = divergence_score (freeze_scores scores poll)"
  by (cases scores; simp add: freeze_scores_def)+

lemma submit_vote_inactive:
  assumes "conviction_polls s poll_id = Some p" and "\<not> is_active p"
  shows "\<exists>e. submit_vote firm_id now new_id s poll_id user_id data = Inl e"
  using assms by (simp add: submit_vote_def get_poll_def)

text \<open>
  C2, as the code has it. \<open>reveal_poll\<close> has no guard on \<open>is_revealed\<close>: every call
  recomputes the aggregates from the votes the poll has at that moment. After a first
  reveal, in every state \<open>t\<close> that holds the same poll row and the same votes of the poll,
  every \<open>submit_vote\<close> on the poll is rejected (the poll is inactive), and a second
  reveal stores the same \<open>average_score\<close> and \<open>divergence_score\<close>.
\<close>

theorem second_reveal_keeps_aggregates:
  assumes first: "reveal_poll firm_id s poll_id by1 = Inr (p1, s1)"
    and same_poll: "conviction_polls t poll_id = conviction_polls s1 poll_id"
    and same_votes: "votes_of_poll t poll_id = votes_of_poll s1 poll_id"
  shows "(\<forall>firm' now new_id user_id data.
            \<exists>e. submit_vote firm' now new_id t poll_id user_id data = Inl e)
         \<and> (\<exists>p2 s2. reveal_poll firm_id t poll_id by2 = Inr (p2, s2)
              \<and> is_revealed p2 \<and> \<not> is_active p2
              \<and> average_score p2 = average_score p1
              \<and> divergence_score p2 = divergence_score p1)"
proof -
  obtain poll where poll: "get_poll firm_id s poll_id = Inr poll"
    using first by (cases "get_poll firm_id s poll_id") (simp_all add: reveal_poll_def)
  let ?sc = "map conviction_score (votes_of_poll s poll_id)"
  have p1: "p1 = freeze_scores ?sc (poll\<lparr>is_revealed := True, is_active := False\<rparr>)"
    and s1: "s1 = s\<lparr>conviction_polls := (conviction_polls s)(poll_id \<mapsto> p1)\<rparr>"
    using first reveal_success[OF poll, of by1] by auto
  have votes: "votes_of_poll t poll_id = votes_of_poll s poll_id"
    using same_votes s1 by (simp add: votes_of_poll_def)
  have stored: "conviction_polls t poll_id = Some p1"
    using same_poll s1 by simp
  have inactive: "\<not> is_active p1" and revealed: "is_revealed p1"
    by (simp_all add: p1 freeze_scores_flags)
  have firm: "poll_firm_id p1 = firm_id"
    using poll by (simp add: p1 freeze_scores_flags get_poll_Inr)
  have gp: "get_poll firm_id t poll_id = Inr p1"
    using stored firm by (simp add: get_poll_Inr)
  let ?p2 = "freeze_scores ?sc (p1\<lparr>is_revealed := True, is_active := False\<rparr>)"
  have r2: "reveal_poll firm_id t poll_id by2 =
      Inr (?p2, t\<lparr>conviction_polls := (conviction_polls t)(poll_id \<mapsto> ?p2)\<rparr>)"
    using reveal_success[OF gp, of by2] votes by simp
  have fl: "is_revealed ?p2 \<and> \<not> is_active ?p2" by (simp add: freeze_scores_flags)
  have av: "average_score ?p2 = average_score p1"
    and dv: "divergence_score ?p2 = divergence_score p1"
    unfolding p1 by (rule freeze_scores_again)+
  have A: "\<forall>firm' now new_id user_id data.
            \<exists>e. submit_vote firm' now new_id t poll_id user_id data = Inl e"
    using submit_vote_inactive[OF stored inactive] by blast
  show ?thesis using A r2 fl av dv by blast
qed

theorem second_reveal_keeps_aggregates_witness:
  "(\<exists>e. submit_vote 1 100 14 ex_db_revealed 5 24
           \<lparr>c_conviction_score = 1, c_red_flags = None, c_red_flag_notes = None,
            c_green_flags = None, c_green_flag_notes = None, c_private_notes = None\<rparr> = Inl e)
   \<and> (\<exists>p2 s2. reveal_poll 1 ex_db_revealed 5 22 = Inr (p2, s2)
         \<and> average_score p2 = Some 7 \<and> divergence_score p2 = Some 5)"
proof -
  have first: "reveal_poll 1 ex_db 5 21 =
      Inr (ex_poll\<lparr>is_revealed := True, is_active := False,
                    average_score := Some 7, divergence_score := Some 5\<rparr>, ex_db_revealed)"
    by (simp add: reveal_poll_def get_poll_def ex_db_revealed_def ex_db_def ex_poll_def
        ex_vote_def votes_of_poll_def freeze_scores_def Let_def)
  show ?thesis
    using second_reveal_keeps_aggregates[OF first refl refl, of 22] by auto
qed

text \<open>
  The revealed example poll holds the aggregates 7 and 5. With one more vote row of
  score 1 in the table, a second reveal overwrites them with 5 and 8.
\<close>

theorem second_reveal_recomputes_counterexample:
  "map_option average_score (conviction_polls ex_db_late_vote 5) = Some (Some 7)
   \<and> map_option divergence_score (conviction_polls ex_db_late_vote 5) = Some (Some 5)
   \<and> map_option is_revealed (conviction_polls ex_db_late_vote 5) = Some True
   \<and> (case reveal_poll 1 ex_db_late_vote 5 21 of
        Inl e \<Rightarrow> None
      | Inr (p, s') \<Rightarrow> Some (average_score p, divergence_score p))
     = Some (Some 5, Some 8)"
  by (simp add: reveal_poll_def get_poll_def ex_db_late_vote_def ex_db_revealed_def ex_db_def
      ex_poll_def ex_vote_def votes_of_poll_def freeze_scores_def Let_def)

section \<open>Vote submission is an upsert\<close>

lemma check_reveal_threshold_id: "check_reveal_threshold s poll_id poll = s"
  by (simp add: check_reveal_threshold_def)

lemma update_vote_key:
  "vote_poll_id (update_vote data now v) = vote_poll_id v"
  "vote_user_id (update_vote data now v) = vote_user_id v"
  "vote_id (update_vote data now v) = vote_id v"
  "submitted_at (update_vote data now v) = submitted_at v"
  by (simp_all add: update_vote_def)

lemma filter_map_update:
  assumes "\<And>v. P (f v) = P v"
  shows "filter P (map (\<lambda>v. if P v then f v else v) xs) = map f (filter P xs)"
  using assms by (induction xs) auto

lemma filter_map_other:
  assumes "\<And>v. Q (f v) = Q v" and "\<And>v. P v \<Longrightarrow> \<not> Q v"
  shows "filter Q (map (\<lambda>v. if P v then f v else v) xs) = filter Q xs"
  using assms by (induction xs) auto

lemma submit_vote_new:
  assumes poll: "get_poll firm_id s poll_id = Inr poll"
    and active: "is_active poll"
    and opn: "case closes_at poll of None \<Rightarrow> True | Some c \<Rightarrow> now \<le> c"
    and none: "votes_of_user s poll_id user_id = []"
  shows "submit_vote firm_id now new_id s poll_id user_id data =
     Inr (new_vote new_id poll_id user_id data now,
          s\<lparr>poll_votes := poll_votes s @ [new_vote new_id poll_id user_id data now]\<rparr>)"
  using assms
  by (auto simp: submit_vote_def scalar_one_or_none_def check_reveal_threshold_id Let_def
      split: option.splits)

lemma submit_vote_existing:
  assumes poll: "get_poll firm_id s poll_id = Inr poll"
    and active: "is_active poll"
    and opn: "case closes_at poll of None \<Rightarrow> True | Some c \<Rightarrow> now \<le> c"
    and one: "votes_of_user s poll_id user_id = [old]"
  shows "submit_vote firm_id now new_id s poll_id user_id data =
     Inr (update_vote data now old,
          s\<lparr>poll_votes :=
              map (\<lambda>v. if vote_poll_id v = poll_id \<and> vote_user_id v = user_id
                        then update_vote data now v else v) (poll_votes s)\<rparr>)"
  using assms
  by (auto simp: submit_vote_def scalar_one_or_none_def check_reveal_threshold_id Let_def
      split: option.splits)

text \<open>
  C6. On a poll of the firm that is active and not past \<open>closes_at\<close>, a voter with at
  most one row for \<open>(poll_id, user_id)\<close> submits a vote: the call succeeds and leaves
  exactly one row for the key, carrying the submitted score, flags and notes and
  \<open>updated_at = now\<close>. With no row before, the row is new and the table grows by one;
  with a row before, that row is overwritten in place (same primary key, same
  \<open>submitted_at\<close>) and the table keeps its length. The rows of every other key and the
  polls are untouched, so the next submission meets the same conditions.
\<close>

theorem submit_vote_upsert:
  assumes poll: "get_poll firm_id s poll_id = Inr poll"
    and active: "is_active poll"
    and opn: "case closes_at poll of None \<Rightarrow> True | Some c \<Rightarrow> now \<le> c"
    and atmost: "length (votes_of_user s poll_id user_id) \<le> 1"
  shows "\<exists>vote s'. submit_vote firm_id now new_id s poll_id user_id data = Inr (vote, s')
     \<and> votes_of_user s' poll_id user_id = [vote]
     \<and> vote_poll_id vote = poll_id \<and> vote_user_id vote = user_id
     \<and> conviction_score vote = c_conviction_score data
     \<and> red_flags vote = c_red_flags data \<and> red_flag_notes vote = c_red_flag_notes data
     \<and> green_flags vote = c_green_flags data \<and> green_flag_notes vote = c_green_flag_notes data
     \<and> private_notes vote = c_private_notes data
     \<and> updated_at vote = now
     \<and> (votes_of_user s poll_id user_id = [] \<longrightarrow>
           poll_votes s' = poll_votes s @ [vote] \<and> vote_id vote = new_id
           \<and> submitted_at vote = now)
     \<and> (\<forall>old. votes_of_user s poll_id user_id = [old] \<longrightarrow>
           length (poll_votes s') = length (poll_votes s)
           \<and> vote_id vote = vote_id old \<and> submitted_at vote = submitted_at old)
     \<and> (\<forall>p u. (p, u) \<noteq> (poll_id, user_id) \<longrightarrow> votes_of_user s' p u = votes_of_user s p u)
     \<and> conviction_polls s' = conviction_polls s"
proof (cases "votes_of_user s poll_id user_id")
  case Nil
  let ?v = "new_vote new_id poll_id user_id data now"
  let ?s = "s\<lparr>poll_votes := poll_votes s @ [?v]\<rparr>"
  have r: "submit_vote firm_id now new_id s poll_id user_id data = Inr (?v, ?s)"
    by (rule submit_vote_new[OF poll active opn Nil])
  have own: "votes_of_user ?s poll_id user_id = [?v]"
    using Nil by (simp add: votes_of_user_def new_vote_def)
  have others: "\<forall>p u. (p, u) \<noteq> (poll_id, user_id) \<longrightarrow> votes_of_user ?s p u = votes_of_user s p u"
    by (auto simp: votes_of_user_def new_vote_def)
  show ?thesis
    using r own others Nil by (intro exI[of _ ?v] exI[of _ ?s]) (simp add: new_vote_def)
next
  case (Cons old rest)
  then have one: "votes_of_user s poll_id user_id = [old]"
    using atmost by simp
  let ?P = "\<lambda>v. vote_poll_id v = poll_id \<and> vote_user_id v = user_id"
  let ?v = "update_vote data now old"
  let ?s = "s\<lparr>poll_votes := map (\<lambda>v. if ?P v then update_vote data now v else v) (poll_votes s)\<rparr>"
  have r: "submit_vote firm_id now new_id s poll_id user_id data = Inr (?v, ?s)"
    by (rule submit_vote_existing[OF poll active opn one])
  have "filter ?P (map (\<lambda>v. if ?P v then update_vote data now v else v) (poll_votes s))
          = map (update_vote data now) (filter ?P (poll_votes s))"
    by (rule filter_map_update) (simp add: update_vote_key)
  then have own: "votes_of_user ?s poll_id user_id = [?v]"
    using one by (simp add: votes_of_user_def)
  have key: "vote_poll_id old = poll_id \<and> vote_user_id old = user_id"
  proof -
    have "old \<in> set (filter ?P (poll_votes s))"
      using one by (simp add: votes_of_user_def)
    then show ?thesis by simp
  qed
  have others: "votes_of_user ?s p u = votes_of_user s p u" if "(p, u) \<noteq> (poll_id, user_id)" for p u
  proof -
    have "filter (\<lambda>v. vote_poll_id v = p \<and> vote_user_id v = u)
            (map (\<lambda>v. if ?P v then update_vote data now v else v) (poll_votes s))
          = filter (\<lambda>v. vote_poll_id v = p \<and> vote_user_id v = u) (poll_votes s)"
      using that by (intro filter_map_other) (auto simp: update_vote_key)
    then show ?thesis by (simp add: votes_of_user_def)
  qed
  show ?thesis
    using r own others one key
    by (intro exI[of _ ?v] exI[of _ ?s]) (simp add: update_vote_def)
qed

theorem submit_vote_upsert_witness:
  "\<exists>v1 s1 v2 s2.
     submit_vote 1 100 14 ex_db 5 24 (ex_data 3) = Inr (v1, s1)
     \<and> votes_of_user s1 5 24 = [v1] \<and> conviction_score v1 = 3
     \<and> length (poll_votes s1) = 4
     \<and> submit_vote 1 200 15 s1 5 24 (ex_data 6) = Inr (v2, s2)
     \<and> votes_of_user s2 5 24 = [v2] \<and> conviction_score v2 = 6 \<and> updated_at v2 = 200
     \<and> vote_id v2 = 14 \<and> length (poll_votes s2) = 4"
proof -
  have a: "is_active ex_poll" and o: "case closes_at ex_poll of None \<Rightarrow> True | Some c \<Rightarrow> 100 \<le> c"
    and o2: "case closes_at ex_poll of None \<Rightarrow> True | Some c \<Rightarrow> 200 \<le> c"
    by (simp_all add: ex_poll_def)
  have none: "votes_of_user ex_db 5 24 = []"
    by (simp add: votes_of_user_def ex_db_def ex_vote_def)
  have le: "length (votes_of_user ex_db 5 24) \<le> 1" by (simp add: none)
  obtain v1 s1 where 1: "submit_vote 1 100 14 ex_db 5 24 (ex_data 3) = Inr (v1, s1)"
    and own1: "votes_of_user s1 5 24 = [v1]" and sc1: "conviction_score v1 = 3"
    and tab1: "poll_votes s1 = poll_votes ex_db @ [v1]" and id1: "vote_id v1 = 14"
    and polls1: "conviction_polls s1 = conviction_polls ex_db"
    using submit_vote_upsert[OF example_poll a o le, of 14 "ex_data 3"] none
    by (auto simp: ex_data_def)
  have p1: "get_poll 1 s1 5 = Inr ex_poll"
    using example_poll polls1 by (simp add: get_poll_def)
  have le1: "length (votes_of_user s1 5 24) \<le> 1" by (simp add: own1)
  obtain v2 s2 where 2: "submit_vote 1 200 15 s1 5 24 (ex_data 6) = Inr (v2, s2)"
    and own2: "votes_of_user s2 5 24 = [v2]" and sc2: "conviction_score v2 = 6"
    and up2: "updated_at v2 = 200"
    and same: "\<forall>old. votes_of_user s1 5 24 = [old] \<longrightarrow>
           length (poll_votes s2) = length (poll_votes s1) \<and> vote_id v2 = vote_id old
           \<and> submitted_at v2 = submitted_at old"
    using submit_vote_upsert[OF p1 a o2 le1, of 15 "ex_data 6"]
    by (auto simp: ex_data_def)
  have len1: "length (poll_votes s1) = 4" by (simp add: tab1 ex_db_def)
  show ?thesis
    using 1 own1 sc1 len1 2 own2 sc2 up2 same id1 by auto
qed

section \<open>Blind votes: what a response shows\<close>

lemma vote_response_blind:
  assumes "\<not> is_revealed poll" and "vote_user_id v \<noteq> requester_id"
  shows "vote_response s poll requester_id v =
     \<lparr>r_id = vote_id v, r_poll_id = vote_poll_id v,
      r_conviction_score = conviction_score v,
      r_red_flags = red_flags v, r_green_flags = green_flags v,
      r_submitted_at = submitted_at v,
      r_user_id = None, r_user_name = None,
      r_red_flag_notes = None, r_green_flag_notes = None\<rparr>"
  using assms by (simp add: vote_response_def Let_def)

lemma vote_response_identity:
  assumes "r_user_id (vote_response s poll requester_id v) \<noteq> None
     \<or> r_user_name (vote_response s poll requester_id v) \<noteq> None
     \<or> r_red_flag_notes (vote_response s poll requester_id v) \<noteq> None
     \<or> r_green_flag_notes (vote_response s poll requester_id v) \<noteq> None"
  shows "is_revealed poll \<or> vote_user_id v = requester_id"
  using assms by (auto simp: vote_response_def Let_def split: if_splits)

lemma lead_vote_response_blind:
  assumes "\<not> is_revealed poll"
  shows "lead_vote_response s poll v =
     \<lparr>r_id = vote_id v, r_poll_id = vote_poll_id v,
      r_conviction_score = conviction_score v,
      r_red_flags = red_flags v, r_green_flags = green_flags v,
      r_submitted_at = submitted_at v,
      r_user_id = None, r_user_name = None,
      r_red_flag_notes = None, r_green_flag_notes = None\<rparr>"
  using assms by (simp add: lead_vote_response_def)

lemma get_poll_votes_success:
  assumes "get_poll firm_id s poll_id = Inr poll"
  shows "get_poll_votes firm_id s poll_id requester_id inc =
           Inr (map (vote_response s poll requester_id) (votes_of_poll s poll_id))"
  using assms by (simp add: get_poll_votes_def)

lemma view_votes:
  assumes poll: "get_poll firm_id s poll_id = Inr poll"
    and view: "get_divergence_view firm_id s poll_id requester_id lead = Inr view"
  shows "dv_votes view =
     (if is_revealed poll \<or> lead
      then Some (map (lead_vote_response s poll) (votes_of_poll s poll_id)) else None)"
  using view poll
  by (auto simp: get_divergence_view_def Let_def
      split: list.splits option.splits if_splits simp del: find.simps)

text \<open>
  C5. For a poll of the firm, \<open>get_poll_votes\<close> answers with one response per vote, in
  order. A response carries a user id, a user name or notes only if the poll is revealed
  or the requester cast the vote; before the reveal, the response to anyone else is
  built from the vote's id, poll, score, flags and submission time alone. The votes of
  \<open>get_divergence_view\<close>, when present, carry identity and notes only if the poll is
  revealed. Hence two states whose votes of an unrevealed poll agree on those public
  fields, with the requester the author of none, give the same answer to
  \<open>get_poll_votes\<close>, whoever cast the votes and whatever the notes say.
\<close>

theorem blind_vote_visibility:
  assumes poll: "get_poll firm_id s poll_id = Inr poll"
  shows "(\<exists>rs. get_poll_votes firm_id s poll_id requester_id inc = Inr rs
           \<and> list_all2
               (\<lambda>v r.
                  ((r_user_id r \<noteq> None \<or> r_user_name r \<noteq> None
                    \<or> r_red_flag_notes r \<noteq> None \<or> r_green_flag_notes r \<noteq> None)
                   \<longrightarrow> is_revealed poll \<or> vote_user_id v = requester_id)
                  \<and> (\<not> is_revealed poll \<and> vote_user_id v \<noteq> requester_id \<longrightarrow>
                       r = \<lparr>r_id = vote_id v, r_poll_id = vote_poll_id v,
                            r_conviction_score = conviction_score v,
                            r_red_flags = red_flags v, r_green_flags = green_flags v,
                            r_submitted_at = submitted_at v,
                            r_user_id = None, r_user_name = None,
                            r_red_flag_notes = None, r_green_flag_notes = None\<rparr>))
               (votes_of_poll s poll_id) rs)
       \<and> (\<forall>view. get_divergence_view firm_id s poll_id requester_id lead = Inr view \<longrightarrow>
             (case dv_votes view of
                None \<Rightarrow> \<not> is_revealed poll
              | Some rs \<Rightarrow>
                  list_all2
                    (\<lambda>v r.
                       ((r_user_id r \<noteq> None \<or> r_user_name r \<noteq> None
                         \<or> r_red_flag_notes r \<noteq> None \<or> r_green_flag_notes r \<noteq> None)
                        \<longrightarrow> is_revealed poll)
                       \<and> (\<not> is_revealed poll \<longrightarrow>
                            r = \<lparr>r_id = vote_id v, r_poll_id = vote_poll_id v,
                                 r_conviction_score = conviction_score v,
                                 r_red_flags = red_flags v, r_green_flags = green_flags v,
                                 r_submitted_at = submitted_at v,
                                 r_user_id = None, r_user_name = None,
                                 r_red_flag_notes = None, r_green_flag_notes = None\<rparr>))
                    (votes_of_poll s poll_id) rs))
       \<and> (\<forall>s' poll' inc'.
             get_poll firm_id s' poll_id = Inr poll'
             \<and> \<not> is_revealed poll \<and> \<not> is_revealed poll'
             \<and> map (\<lambda>v. (vote_id v, vote_poll_id v, conviction_score v, red_flags v,
                          green_flags v, submitted_at v)) (votes_of_poll s poll_id)
                 = map (\<lambda>v. (vote_id v, vote_poll_id v, conviction_score v, red_flags v,
                          green_flags v, submitted_at v)) (votes_of_poll s' poll_id)
             \<and> requester_id \<notin> vote_user_id ` set (votes_of_poll s poll_id)
             \<and> requester_id \<notin> vote_user_id ` set (votes_of_poll s' poll_id)
             \<longrightarrow> get_poll_votes firm_id s poll_id requester_id inc
                   = get_poll_votes firm_id s' poll_id requester_id inc')"
proof (intro conjI allI impI)
  show "\<exists>rs. get_poll_votes firm_id s poll_id requester_id inc = Inr rs
           \<and> list_all2
               (\<lambda>v r.
                  ((r_user_id r \<noteq> None \<or> r_user_name r \<noteq> None
                    \<or> r_red_flag_notes r \<noteq> None \<or> r_green_flag_notes r \<noteq> None)
                   \<longrightarrow> is_revealed poll \<or> vote_user_id v = requester_id)
                  \<and> (\<not> is_revealed poll \<and> vote_user_id v \<noteq> requester_id \<longrightarrow>
                       r = \<lparr>r_id = vote_id v, r_poll_id = vote_poll_id v,
                            r_conviction_score = conviction_score v,
                            r_red_flags = red_flags v, r_green_flags = green_flags v,
                            r_submitted_at = submitted_at v,
                            r_user_id = None, r_user_name = None,
                            r_red_flag_notes = None, r_green_flag_notes = None\<rparr>))
               (votes_of_poll s poll_id) rs"
  proof -
    have per: "((r_user_id (vote_response s poll requester_id v) \<noteq> None
                 \<or> r_user_name (vote_response s poll requester_id v) \<noteq> None
                 \<or> r_red_flag_notes (vote_response s poll requester_id v) \<noteq> None
                 \<or> r_green_flag_notes (vote_response s poll requester_id v) \<noteq> None)
                \<longrightarrow> is_revealed poll \<or> vote_user_id v = requester_id)
             \<and> (\<not> is_revealed poll \<and> vote_user_id v \<noteq> requester_id \<longrightarrow>
                   vote_response s poll requester_id v =
                     \<lparr>r_id = vote_id v, r_poll_id = vote_poll_id v,
                      r_conviction_score = conviction_score v,
                      r_red_flags = red_flags v, r_green_flags = green_flags v,
                      r_submitted_at = submitted_at v,
                      r_user_id = None, r_user_name = None,
                      r_red_flag_notes = None, r_green_flag_notes = None\<rparr>)" for v
      using vote_response_identity[of s poll requester_id v]
        vote_response_blind[of poll v requester_id s] by blast
    show ?thesis
      unfolding get_poll_votes_success[OF poll]
      by (intro exI[of _ "map (vote_response s poll requester_id) (votes_of_poll s poll_id)"]
            conjI refl)
         (simp only: list_all2_map2, rule list.rel_refl_strong, rule per)
  qed
next
  fix view
  assume view: "get_divergence_view firm_id s poll_id requester_id lead = Inr view"
  show "case dv_votes view of
          None \<Rightarrow> \<not> is_revealed poll
        | Some rs \<Rightarrow>
            list_all2
              (\<lambda>v r.
                 ((r_user_id r \<noteq> None \<or> r_user_name r \<noteq> None
                   \<or> r_red_flag_notes r \<noteq> None \<or> r_green_flag_notes r \<noteq> None)
                  \<longrightarrow> is_revealed poll)
                 \<and> (\<not> is_revealed poll \<longrightarrow>
                      r = \<lparr>r_id = vote_id v, r_poll_id = vote_poll_id v,
                           r_conviction_score = conviction_score v,
                           r_red_flags = red_flags v, r_green_flags = green_flags v,
                           r_submitted_at = submitted_at v,
                           r_user_id = None, r_user_name = None,
                           r_red_flag_notes = None, r_green_flag_notes = None\<rparr>))
              (votes_of_poll s poll_id) rs"
  proof -
    have per: "((r_user_id (lead_vote_response s poll v) \<noteq> None
                 \<or> r_user_name (lead_vote_response s poll v) \<noteq> None
                 \<or> r_red_flag_notes (lead_vote_response s poll v) \<noteq> None
                 \<or> r_green_flag_notes (lead_vote_response s poll v) \<noteq> None)
                \<longrightarrow> is_revealed poll)
             \<and> (\<not> is_revealed poll \<longrightarrow>
                   lead_vote_response s poll v =
                     \<lparr>r_id = vote_id v, r_poll_id = vote_poll_id v,
                      r_conviction_score = conviction_score v,
                      r_red_flags = red_flags v, r_green_flags = green_flags v,
                      r_submitted_at = submitted_at v,
                      r_user_id = None, r_user_name = None,
                      r_red_flag_notes = None, r_green_flag_notes = None\<rparr>)" for v
      by (cases "is_revealed poll") (simp_all add: lead_vote_response_def)
    show ?thesis
    proof (cases "is_revealed poll \<or> lead")
      case True
      then have "dv_votes view = Some (map (lead_vote_response s poll) (votes_of_poll s poll_id))"
        by (simp add: view_votes[OF poll view])
      moreover have "list_all2
              (\<lambda>v r.
                 ((r_user_id r \<noteq> None \<or> r_user_name r \<noteq> None
                   \<or> r_red_flag_notes r \<noteq> None \<or> r_green_flag_notes r \<noteq> None)
                  \<longrightarrow> is_revealed poll)
                 \<and> (\<not> is_revealed poll \<longrightarrow>
                      r = \<lparr>r_id = vote_id v, r_poll_id = vote_poll_id v,
                           r_conviction_score = conviction_score v,
                           r_red_flags = red_flags v, r_green_flags = green_flags v,
                           r_submitted_at = submitted_at v,
                           r_user_id = None, r_user_name = None,
                           r_red_flag_notes = None, r_green_flag_notes = None\<rparr>))
              (votes_of_poll s poll_id)
              (map (lead_vote_response s poll) (votes_of_poll s poll_id))"
        by (simp only: list_all2_map2, rule list.rel_refl_strong, rule per)
      ultimately show ?thesis by simp
    next
      case False
      then show ?thesis by (simp add: view_votes[OF poll view])
    qed
  qed
next
  fix s' poll' inc'
  assume h: "get_poll firm_id s' poll_id = Inr poll'
             \<and> \<not> is_revealed poll \<and> \<not> is_revealed poll'
             \<and> map (\<lambda>v. (vote_id v, vote_poll_id v, conviction_score v, red_flags v,
                          green_flags v, submitted_at v)) (votes_of_poll s poll_id)
                 = map (\<lambda>v. (vote_id v, vote_poll_id v, conviction_score v, red_flags v,
                          green_flags v, submitted_at v)) (votes_of_poll s' poll_id)
             \<and> requester_id \<notin> vote_user_id ` set (votes_of_poll s poll_id)
             \<and> requester_id \<notin> vote_user_id ` set (votes_of_poll s' poll_id)"
  define pub where "pub = (\<lambda>v::poll_vote. (vote_id v, vote_poll_id v, conviction_score v, red_flags v,
                          green_flags v, submitted_at v))"
  define B where "B = (\<lambda>(i, p, sc, rf, gf, t).
      \<lparr>r_id = i, r_poll_id = p, r_conviction_score = sc, r_red_flags = rf,
       r_green_flags = gf, r_submitted_at = t, r_user_id = None, r_user_name = None,
       r_red_flag_notes = None, r_green_flag_notes = None\<rparr>)"
  have gp: "get_poll firm_id s' poll_id = Inr poll'"
    and nr: "\<not> is_revealed poll" and nr': "\<not> is_revealed poll'"
    and na: "\<And>v. v \<in> set (votes_of_poll s poll_id) \<Longrightarrow> vote_user_id v \<noteq> requester_id"
    and na': "\<And>v. v \<in> set (votes_of_poll s' poll_id) \<Longrightarrow> vote_user_id v \<noteq> requester_id"
    using h by auto
  have eq: "map pub (votes_of_poll s poll_id) = map pub (votes_of_poll s' poll_id)"
    using h by (simp add: pub_def)
  have blind: "vote_response t p requester_id v = B (pub v)"
    if "\<not> is_revealed p" and "vote_user_id v \<noteq> requester_id" for t p v
    using that by (simp add: vote_response_blind B_def pub_def)
  have 1: "map (vote_response s poll requester_id) (votes_of_poll s poll_id)
             = map B (map pub (votes_of_poll s poll_id))"
    using nr na by (simp add: blind)
  have 2: "map (vote_response s' poll' requester_id) (votes_of_poll s' poll_id)
             = map B (map pub (votes_of_poll s' poll_id))"
    using nr' na' by (simp add: blind)
  show "get_poll_votes firm_id s poll_id requester_id inc
          = get_poll_votes firm_id s' poll_id requester_id inc'"
    by (simp only: get_poll_votes_success[OF poll] get_poll_votes_success[OF gp] 1 2 eq)
qed

theorem blind_vote_visibility_witness:
  "(\<exists>rs. get_poll_votes 1 ex_db_named 5 23 False = Inr rs
          \<and> map r_user_id rs = [None, None] \<and> map r_user_name rs = [None, None]
          \<and> map r_red_flag_notes rs = [None, None]
          \<and> map r_conviction_score rs = [4, 9])
   \<and> get_poll_votes 1 ex_db_named 5 23 False = get_poll_votes 1 ex_db_swapped 5 23 False"
proof -
  have p: "get_poll 1 ex_db_named 5 = Inr ex_poll"
    by (simp add: get_poll_def ex_db_named_def ex_db_def ex_poll_def)
  have p': "get_poll 1 ex_db_swapped 5 = Inr ex_poll"
    by (simp add: get_poll_def ex_db_swapped_def ex_db_named_def ex_db_def ex_poll_def)
  have vs: "votes_of_poll ex_db_named 5
              = [ex_named_vote 11 21 4 ''too early'', ex_named_vote 12 22 9 ''none'']"
    by (simp add: votes_of_poll_def ex_db_named_def ex_db_def ex_named_vote_def ex_vote_def)
  have vs': "votes_of_poll ex_db_swapped 5
              = [ex_named_vote 11 22 4 ''valuation'', ex_named_vote 12 21 9 ''team'']"
    by (simp add: votes_of_poll_def ex_db_swapped_def ex_db_named_def ex_db_def
        ex_named_vote_def ex_vote_def)
  have nr: "\<not> is_revealed ex_poll" by (simp add: ex_poll_def)
  note main = blind_vote_visibility[OF p, of 23 False True]
  have same: "get_poll_votes 1 ex_db_named 5 23 False = get_poll_votes 1 ex_db_swapped 5 23 False"
    using main p' nr by (simp add: vs vs' ex_named_vote_def ex_vote_def)
  have first: "\<exists>rs. get_poll_votes 1 ex_db_named 5 23 False = Inr rs
          \<and> map r_user_id rs = [None, None] \<and> map r_user_name rs = [None, None]
          \<and> map r_red_flag_notes rs = [None, None]
          \<and> map r_conviction_score rs = [4, 9]"
    unfolding get_poll_votes_success[OF p] vs
    by (simp add: vote_response_def ex_named_vote_def ex_vote_def nr Let_def)
  show ?thesis using first same by blast
qed

section \<open>Basic facts about the queries\<close>




lemma execute_vector_query_raises: "\<exists>e. execute_vector_query s rows = Inl e"
  by (simp add: execute_vector_query_def split: option.splits)

section \<open>Tenant isolation of the similarity searches\<close>







section \<open>Deduplication and ranking of the candidates\<close>











lemma memo_pattern_company_name:
  "p_company_name (memo_pattern extract (dc, d, x)) =
     (if or_empty (extracted_company d) \<noteq> [] then or_empty (extracted_company d)
      else original_filename d)"
  by (simp add: memo_pattern_def)



section \<open>Errors of the narrative pass\<close>

lemma memo_text_nonempty: "memo_text deal \<noteq> []"
  by (simp add: memo_text_def)

lemma embed_memo_text: "embed_text encode dimension (memo_text deal) = encode (memo_text deal)"
  by (simp add: embed_text_def memo_text_nonempty)

lemma search_pass_vectors_empty:
  assumes "encode (memo_text deal) = Inr q"
  shows "search_pass_vectors cos_dist sql_lower encode dimension extract firm_id s deal limit = Inr []"
  using assms execute_vector_query_raises[of s "memo_query cos_dist sql_lower firm_id s q"]
  by (auto simp: search_pass_vectors_def embed_memo_text)

text \<open>
  C4, as the code has it. A failure of the embedding provider propagates out of
  \<open>_search_pass_vectors\<close>, and no other error ever does: when the storage query raises,
  the search returns the empty list.
\<close>

theorem search_pass_vectors_errors:
  "(encode (memo_text deal) = Inl e \<longrightarrow>
      search_pass_vectors cos_dist sql_lower encode dimension extract firm_id s deal limit = Inl e)
   \<and> (encode (memo_text deal) = Inr q
       \<and> execute_vector_query s (memo_query cos_dist sql_lower firm_id s q) = Inl e' \<longrightarrow>
      search_pass_vectors cos_dist sql_lower encode dimension extract firm_id s deal limit = Inr [])
   \<and> (search_pass_vectors cos_dist sql_lower encode dimension extract firm_id s deal limit = Inl e
       \<longrightarrow> encode (memo_text deal) = Inl e)"
  by (auto simp: search_pass_vectors_def embed_memo_text split: sum.splits)

theorem search_pass_vectors_errors_witness:
  "search_pass_vectors ex_dist ex_lower ex_encode_down 2 id 1 ex_vdb ex_deal 10
     = Inl (EmbeddingError ''model unavailable'')"
proof -
  have "ex_encode_down (memo_text ex_deal) = Inl (EmbeddingError ''model unavailable'')"
    by (simp add: ex_encode_down_def)
  then show ?thesis
    using search_pass_vectors_errors[where encode = ex_encode_down and deal = ex_deal
        and e = "EmbeddingError ''model unavailable''"]
    by blast
qed

text \<open>
  The database raises on the query of the narrative pass, and the pass returns the
  empty list.
\<close>

theorem storage_error_swallowed_counterexample:
  "execute_vector_query ex_vdb_down (memo_query ex_dist ex_lower 1 ex_vdb_down [1, 0])
     = Inl (DatabaseError ''connection lost'')
   \<and> search_pass_vectors ex_dist ex_lower ex_encode 2 id 1 ex_vdb_down ex_deal 10 = Inr []"
  by (simp add: search_pass_vectors_def embed_text_def memo_text_def ex_encode_def
      execute_vector_query_def ex_vdb_down_def)

section \<open>Similarity thresholds at the floor\<close>

lemma similarity_half: "compute_similarity ex_numpy [1, 0, 0, 0] [1, 1, 1, 1] = Inr (1 / 2)"
  by (simp add: compute_similarity_def ex_numpy_def)

lemma example_texts:
  "deal_text ex_deal = ''Nova   fintech''" "passed_text ex_passed_deal = ''Orbit  ''"
  by (simp_all add: deal_text_def passed_text_def ex_deal_def ex_passed_deal_def or_empty_def)

text \<open>
  A candidate of the structured pass whose similarity is exactly 0.5 is dropped,
  whatever numpy computes elsewhere.
\<close>

lemma score_deals_at_floor:
  assumes "embed_text encode dimension (passed_text passed_deal) = Inr passed_embedding"
    and "compute_similarity np deal_embedding passed_embedding = Inr (1 / 2)"
  shows "score_deals np encode dimension deal_embedding [passed_deal] = Inr []"
  using assms by simp

text \<open>
  The \<open>WHERE\<close> clauses of the three vector queries compare with \<open>>=\<close>: a row whose
  similarity is exactly at the floor satisfies them.
\<close>

lemma similarity_where_at_floor:
  assumes "1 - distance = min_similarity"
  shows "similarity_where firm_id min_similarity None None (dc, d, distance)
           \<longleftrightarrow> chunk_firm_id dc = firm_id \<and> doc_firm_id d = firm_id"
  using assms by (auto simp: similarity_where_def)

lemma pass_where_at_floor:
  "pass_where sql_lower firm_id (dc, d, 1 / 2)
     \<longleftrightarrow> chunk_firm_id dc = firm_id \<and> doc_firm_id d = firm_id
          \<and> doc_document_type d = ''ic_memo''
          \<and> (\<exists>k \<in> set pass_keywords. contains k (sql_lower (content dc)))"
  by (auto simp: pass_where_def)

lemma memo_where_at_floor:
  "memo_where sql_lower firm_id (dc, d, 1 / 2)
     \<longleftrightarrow> chunk_firm_id dc = firm_id \<and> doc_document_type d = ''ic_memo''
          \<and> (\<exists>k \<in> set memo_keywords. contains k (sql_lower (content dc)))"
  by (auto simp: memo_where_def)

text \<open>
  C10, at the floor of the structured pass. The passed deal's similarity to the new deal
  is exactly 0.5, and \<open>_find_similar_passed_deals\<close> drops it (\<open>similarity > 0.5\<close>): the
  scoring loop keeps nothing and the pass returns the empty list.
\<close>

theorem structured_pass_drops_candidate_at_floor:
  "compute_similarity ex_numpy [1, 0, 0, 0] [1, 1, 1, 1] = Inr (1 / 2)
   \<and> score_deals ex_numpy ex_encode_half 4 [1, 0, 0, 0] [ex_passed_deal] = Inr []
   \<and> find_similar_passed_deals ex_numpy ex_encode_half 4 1 ex_vdb_passed ex_deal 10 = Inr []"
proof (intro conjI)
  show "compute_similarity ex_numpy [1, 0, 0, 0] [1, 1, 1, 1] = Inr (1 / 2)"
    by (rule similarity_half)
  have enc: "embed_text ex_encode_half 4 (passed_text ex_passed_deal) = Inr [1, 1, 1, 1]"
    by (simp add: embed_text_def ex_encode_half_def example_texts)
  show sc: "score_deals ex_numpy ex_encode_half 4 [1, 0, 0, 0] [ex_passed_deal] = Inr []"
    by (rule score_deals_at_floor[OF enc similarity_half])
  have sel: "filter (passed_deal_where 1 ex_deal) (deals ex_vdb_passed) = [ex_passed_deal]"
    by (simp add: passed_deal_where_def ex_vdb_passed_def ex_deal_def ex_passed_deal_def
        or_empty_def)
  have ord: "order_by_updated_desc [ex_passed_deal] = [ex_passed_deal]"
    by (simp add: order_by_updated_desc_def ex_passed_deal_def)
  have emb: "embed_text ex_encode_half 4 (deal_text ex_deal) = Inr [1, 0, 0, 0]"
    by (simp add: embed_text_def ex_encode_half_def example_texts)
  show "find_similar_passed_deals ex_numpy ex_encode_half 4 1 ex_vdb_passed ex_deal 10 = Inr []"
    unfolding find_similar_passed_deals_def sel ord
    by (simp add: execute_def ex_vdb_passed_def ex_vdb_def sql_limit_def emb sc
        py_slice_to_def sort_by_similarity_def del: score_deals.simps)
qed

end
